theory Spec2Isabelle
  imports Complex_Main "HOL-Library.Word"
begin

section \<open>Values\<close>

text \<open>
  A C++ \<open>double\<close>: a finite value, one of the two infinities, or NaN. The two
  zeros compare equal and are one value here. The comparisons are the IEEE ones: every
  comparison with NaN is false.
\<close>

datatype double = Fin real | PosInf | NegInf | NaN

fun double_lt :: "double \<Rightarrow> double \<Rightarrow> bool" where
  "double_lt NaN y = False"
| "double_lt x NaN = False"
| "double_lt (Fin x) (Fin y) = (x < y)"
| "double_lt (Fin x) PosInf = True"
| "double_lt (Fin x) NegInf = False"
| "double_lt PosInf y = False"
| "double_lt NegInf NegInf = False"
| "double_lt NegInf y = True"

fun double_ge :: "double \<Rightarrow> double \<Rightarrow> bool" where
  "double_ge NaN y = False"
| "double_ge x NaN = False"
| "double_ge x y = (\<not> double_lt x y)"

text \<open>\<open>size_t\<close> and \<open>npos\<close>, the largest value of the type.\<close>

type_synonym size_t = "64 word"

definition npos :: size_t where
  "npos = - 1"

text \<open>
  The exceptions: \<open>CanteraError procedure message\<close>, \<open>std::bad_cast\<close> of a failed
  \<open>dynamic_cast\<close> to a reference, and the failure of an access out of range.
\<close>

datatype error = CanteraError string string | bad_cast | out_of_range

section \<open>Units and the parameter tree\<close>

text \<open>
  Modelled from the spec: the class \<open>Units\<close> is not part of the source under study.
  A unit is a scale factor with an exponent vector over the base dimensions mass, length,
  time, quantity, temperature and current; \<open>Units(f)\<close> is the dimensionless unit of
  factor \<open>f\<close>.
\<close>

datatype Units = Units (factor: double) (dims: "real list")

definition Units_of :: "double \<Rightarrow> Units" where
  "Units_of f = Units f (replicate 6 0)"

text \<open>
  Modelled from the spec: the class \<open>UnitSystem\<close> is not part of the source under
  study. A node's unit system names its activation-energy, quantity, length and time units.
\<close>

datatype UnitSystem =
  UnitSystem (activation_energy: string) (quantity: string) (length_unit: string)
    (time_unit: string)

text \<open>
  Modelled from the spec: the classes \<open>AnyValue\<close> and \<open>AnyMap\<close> are not part of
  the source under study. A value is empty, a number, a string, a boolean, a nested mapping
  or a sequence; a mapping takes string keys to values and carries a unit system.
\<close>

datatype AnyValue =
    AnyEmpty
  | AnyDouble double
  | AnyString string
  | AnyBool bool
  | AnyNested AnyMap
  | AnySeq "AnyValue list"
and AnyMap = AnyMap (m_data: "(string \<times> AnyValue) list") (m_units: UnitSystem)

definition AnyMap_new :: "UnitSystem \<Rightarrow> AnyMap" where
  "AnyMap_new us = AnyMap [] us"

definition AnyMap_find :: "AnyMap \<Rightarrow> string \<Rightarrow> AnyValue option" where
  "AnyMap_find node key = map_of (m_data node) key"

definition hasKey :: "AnyMap \<Rightarrow> string \<Rightarrow> bool" where
  "hasKey node key = (AnyMap_find node key \<noteq> None)"

definition AnyMap_empty :: "AnyMap \<Rightarrow> bool" where
  "AnyMap_empty node = (m_data node = [])"

text \<open>
  Modelled from the spec: \<open>node[key]\<close> on a constant mapping, the value stored at the
  key; the key is checked with \<open>hasKey\<close> by every caller in the source, and a missing
  key is an error.
\<close>

definition AnyMap_at :: "AnyMap \<Rightarrow> string \<Rightarrow> error + AnyValue" where
  "AnyMap_at node key =
     (case AnyMap_find node key of
        None \<Rightarrow> Inl (CanteraError ''AnyMap::operator[]'' key)
      | Some v \<Rightarrow> Inr v)"

text \<open>
  Modelled from the spec: \<open>node[key] = v\<close> on a mutable mapping stores the value at
  the key, replacing the one that was there.
\<close>

definition AnyMap_set :: "string \<Rightarrow> AnyValue \<Rightarrow> AnyMap \<Rightarrow> AnyMap" where
  "AnyMap_set key v node =
     AnyMap ((key, v) # filter (\<lambda>kv. fst kv \<noteq> key) (m_data node)) (m_units node)"

text \<open>
  Modelled from the spec: \<open>getBool(key, default)\<close> reads an optional boolean: the
  default when the key is absent, the boolean when it holds one. The spec gives the key
  no other type; a value of another type is rejected.
\<close>

definition getBool :: "AnyMap \<Rightarrow> string \<Rightarrow> bool \<Rightarrow> error + bool" where
  "getBool node key dflt =
     (case AnyMap_find node key of
        None \<Rightarrow> Inr dflt
      | Some (AnyBool b) \<Rightarrow> Inr b
      | Some _ \<Rightarrow> Inl (CanteraError ''AnyValue::asBool'' key))"

section \<open>The base class of the rates\<close>

text \<open>
  The members of \<open>ReactionRateBase\<close> that the source reads and writes. The shared
  pointer \<open>m_evaluator\<close> is the address of an evaluator, or null.
\<close>

type_synonym evaluator_ptr = "nat option"

record ReactionRateBase =
  units :: Units
  input :: AnyMap
  m_evaluator :: evaluator_ptr
  m_index :: size_t

definition ReactionRateBase_setParameters ::
  "AnyMap \<Rightarrow> Units \<Rightarrow> 'a ReactionRateBase_scheme \<Rightarrow> 'a ReactionRateBase_scheme" where
  "ReactionRateBase_setParameters node rate_units r = r\<lparr>units := rate_units, input := node\<rparr>"

definition linkEvaluator ::
  "size_t \<Rightarrow> evaluator_ptr \<Rightarrow> 'a ReactionRateBase_scheme \<Rightarrow> 'a ReactionRateBase_scheme" where
  "linkEvaluator index evaluator r = r\<lparr>m_index := index, m_evaluator := evaluator\<rparr>"

definition releaseEvaluator :: "'a ReactionRateBase_scheme \<Rightarrow> 'a ReactionRateBase_scheme" where
  "releaseEvaluator r = r\<lparr>m_index := npos, m_evaluator := None\<rparr>"

definition index :: "'a ReactionRateBase_scheme \<Rightarrow> error + size_t" where
  "index r =
     (if m_evaluator r \<noteq> None then Inr (m_index r)
      else Inl (CanteraError ''ReactionRateBase::index''
        (''Not applicable, as reaction rate '' @
         ''is not linked to Kinetics object with assoicated rate evaluator'')))"

section \<open>The Arrhenius rate\<close>

text \<open>
  Modelled from the spec: the class \<open>Arrhenius\<close> is not part of the source under
  study. It holds the triple \<open>(A, b, E/R)\<close> in the members \<open>m_A\<close>, \<open>m_b\<close> and
  \<open>m_E\<close> that the source assigns; its constructor stores its three arguments, and
  its three getters read them back.
\<close>

datatype Arrhenius =
  Arrhenius (preExponentialFactor: double) (temperatureExponent: double)
    (activationEnergy_R: double)

text \<open>
  \<open>ArrheniusRate\<close> derives from the base class of the rates and from
  \<open>Arrhenius\<close>: the record extends the base record by the three members of
  \<open>Arrhenius\<close> and by its own flag.
\<close>

record ArrheniusRate = ReactionRateBase +
  m_A :: double
  m_b :: double
  m_E :: double
  allow_negative_pre_exponential_factor :: bool

definition ArrheniusRate_preExponentialFactor :: "ArrheniusRate \<Rightarrow> double" where
  "ArrheniusRate_preExponentialFactor r = m_A r"

definition ArrheniusRate_temperatureExponent :: "ArrheniusRate \<Rightarrow> double" where
  "ArrheniusRate_temperatureExponent r = m_b r"

definition ArrheniusRate_activationEnergy_R :: "ArrheniusRate \<Rightarrow> double" where
  "ArrheniusRate_activationEnergy_R r = m_E r"

text \<open>
  The constructors. The constructor of the base class is not part of the source: its
  result is the argument \<open>base\<close>. The division of doubles \<open>fdiv\<close> and the constant
  \<open>GasConstant\<close> are arguments as well.
\<close>

definition ArrheniusRate_default :: "ReactionRateBase \<Rightarrow> ArrheniusRate" where
  "ArrheniusRate_default base =
     \<lparr>units = units base, input = input base, m_evaluator = m_evaluator base,
      m_index = m_index base,
      m_A = NaN, m_b = NaN, m_E = NaN, allow_negative_pre_exponential_factor = False\<rparr>"

definition ArrheniusRate_ABE ::
  "(double \<Rightarrow> double \<Rightarrow> double) \<Rightarrow> double \<Rightarrow> ReactionRateBase \<Rightarrow>
   double \<Rightarrow> double \<Rightarrow> double \<Rightarrow> ArrheniusRate" where
  "ArrheniusRate_ABE fdiv GasConstant base A b E =
     \<lparr>units = units base, input = input base, m_evaluator = m_evaluator base,
      m_index = m_index base,
      m_A = A, m_b = b, m_E = fdiv E GasConstant,
      allow_negative_pre_exponential_factor = False\<rparr>"

definition ArrheniusRate_of_Arrhenius ::
  "ReactionRateBase \<Rightarrow> Arrhenius \<Rightarrow> bool \<Rightarrow> ArrheniusRate" where
  "ArrheniusRate_of_Arrhenius base arr allow_negative_A =
     \<lparr>units = units base, input = input base, m_evaluator = m_evaluator base,
      m_index = m_index base,
      m_A = preExponentialFactor arr, m_b = temperatureExponent arr,
      m_E = activationEnergy_R arr,
      allow_negative_pre_exponential_factor = allow_negative_A\<rparr>"

text \<open>
  Modelled from the spec: \<open>Arrhenius::setParameters(rate, units, rate_units)\<close> is not
  part of the source under study. An empty value leaves the coefficients unset, which is
  NaN as after the default constructor; the reading of a value that is not empty, with its
  unit conversions, is the argument \<open>conv\<close>.
\<close>

type_synonym arrhenius_reader =
  "AnyValue \<Rightarrow> UnitSystem \<Rightarrow> Units \<Rightarrow> error + Arrhenius"

definition Arrhenius_setParameters ::
  "arrhenius_reader \<Rightarrow> AnyValue \<Rightarrow> UnitSystem \<Rightarrow> Units \<Rightarrow> ArrheniusRate \<Rightarrow>
   error + ArrheniusRate" where
  "Arrhenius_setParameters conv rate us rate_units r =
     (if rate = AnyEmpty then Inr (r\<lparr>m_A := NaN, m_b := NaN, m_E := NaN\<rparr>)
      else (case conv rate us rate_units of
              Inl e \<Rightarrow> Inl e
            | Inr arr \<Rightarrow>
                Inr (r\<lparr>m_A := preExponentialFactor arr, m_b := temperatureExponent arr,
                       m_E := activationEnergy_R arr\<rparr>)))"

definition ArrheniusRate_setParameters ::
  "arrhenius_reader \<Rightarrow> AnyMap \<Rightarrow> Units \<Rightarrow> ArrheniusRate \<Rightarrow> error + ArrheniusRate" where
  "ArrheniusRate_setParameters conv node rate_units r =
     (let r1 = ReactionRateBase_setParameters node rate_units r in
      case getBool node ''negative-A'' False of
        Inl e \<Rightarrow> Inl e
      | Inr flag \<Rightarrow>
          (let r2 = r1\<lparr>allow_negative_pre_exponential_factor := flag\<rparr> in
           if \<not> hasKey node ''rate-constant'' then
             Arrhenius_setParameters conv AnyEmpty (m_units node) rate_units r2
           else
             (case AnyMap_at node ''rate-constant'' of
                Inl e \<Rightarrow> Inl e
              | Inr v \<Rightarrow> Arrhenius_setParameters conv v (m_units node) rate_units r2)))"

text \<open>
  \<open>Arrhenius::getParameters(node, rate_units)\<close> is not part of the source under study:
  it is the argument \<open>aget\<close>, which fills the node it is given from the three
  coefficients and the rate units.
\<close>

type_synonym arrhenius_writer = "Arrhenius \<Rightarrow> Units \<Rightarrow> AnyMap \<Rightarrow> AnyMap"

definition ArrheniusRate_getParameters ::
  "arrhenius_writer \<Rightarrow> UnitSystem \<Rightarrow> ArrheniusRate \<Rightarrow> Units \<Rightarrow> AnyMap \<Rightarrow> AnyMap" where
  "ArrheniusRate_getParameters aget us0 r rate_units rateNode =
     (let rateNode1 =
            (if allow_negative_pre_exponential_factor r
             then AnyMap_set ''negative-A'' (AnyBool True) rateNode else rateNode);
          node = aget (Arrhenius (m_A r) (m_b r) (m_E r)) rate_units (AnyMap_new us0)
      in if \<not> AnyMap_empty node
         then AnyMap_set ''rate-constant'' (AnyNested node) rateNode1
         else rateNode1)"

text \<open>
  \<open>ReactionRateBase::parameters\<close>, at an Arrhenius rate: the parameters written to
  a fresh node, for the rate units given or for the ones the rate holds.
\<close>

definition ArrheniusRate_parameters_in ::
  "arrhenius_writer \<Rightarrow> UnitSystem \<Rightarrow> ArrheniusRate \<Rightarrow> Units \<Rightarrow> AnyMap" where
  "ArrheniusRate_parameters_in aget us0 r rate_units =
     ArrheniusRate_getParameters aget us0 r rate_units (AnyMap_new us0)"

definition ArrheniusRate_parameters ::
  "arrhenius_writer \<Rightarrow> UnitSystem \<Rightarrow> ArrheniusRate \<Rightarrow> AnyMap" where
  "ArrheniusRate_parameters aget us0 r =
     ArrheniusRate_getParameters aget us0 r (units r) (AnyMap_new us0)"

definition ArrheniusRate_validate :: "string \<Rightarrow> ArrheniusRate \<Rightarrow> error + ArrheniusRate" where
  "ArrheniusRate_validate equation r =
     (if \<not> allow_negative_pre_exponential_factor r
         \<and> double_lt (ArrheniusRate_preExponentialFactor r) (Fin 0)
      then Inl (CanteraError ''ArrheniusRate::validate''
             (''Undeclared negative pre-exponential factor found in reaction '' @ [CHR 0x27]
              @ equation @ [CHR 0x27]))
      else Inr r)"

section \<open>The other rates\<close>

text \<open>
  Modelled from the spec: the classes \<open>Plog\<close>, \<open>Chebyshev\<close>, \<open>Array2D\<close> and
  \<open>Func1\<close> are not part of the source under study. A Plog rate is a sequence of pairs
  of a pressure and an Arrhenius triple; a Chebyshev rate is the four bounds of its domain
  with a coefficient matrix; a custom rate points to a function of the temperature, or to
  nothing.
\<close>

type_synonym Plog = "(double \<times> Arrhenius) list"

type_synonym Array2D = "double list list"

datatype Chebyshev =
  Chebyshev (Tmin: double) (Tmax: double) (Pmin: double) (Pmax: double) (coeffs2D: Array2D)

type_synonym Func1 = "double \<Rightarrow> double"

record PlogRate = ReactionRateBase +
  plog :: Plog

record ChebyshevRate3 = ReactionRateBase +
  chebyshev :: Chebyshev

record CustomFunc1Rate = ReactionRateBase +
  m_ratefunc :: "Func1 option"

record CustomFunc1Data =
  m_temperature :: double

text \<open>
  \<open>Plog::setRates\<close> and \<open>Chebyshev::setCoeffs\<close> are not part of the source under
  study: they are arguments, functions of the value given and of the state of the base
  class, which they replace or reject.
\<close>

type_synonym plog_setter = "(double \<times> Arrhenius) list \<Rightarrow> Plog \<Rightarrow> error + Plog"

type_synonym chebyshev_setter = "Array2D \<Rightarrow> Chebyshev \<Rightarrow> error + Chebyshev"

section \<open>Evaluators and the link\<close>

text \<open>
  Modelled from the spec: the class \<open>MultiRateBase\<close> is not part of the source under
  study. An evaluator stores a dense sequence of rates, and \<open>rate(index)\<close> is a
  reference to the one at the index; an index past the end is an error. A shared pointer
  keeps its evaluator alive: every address holds one.
\<close>

datatype rate =
    RArrhenius ArrheniusRate
  | RPlog PlogRate
  | RChebyshev ChebyshevRate3
  | RCustom CustomFunc1Rate

type_synonym MultiRateBase = "rate list"

type_synonym heap = "nat \<Rightarrow> MultiRateBase"

definition MultiRateBase_rate :: "MultiRateBase \<Rightarrow> size_t \<Rightarrow> error + rate" where
  "MultiRateBase_rate ev i = (if unat i < length ev then Inr (ev ! unat i) else Inl out_of_range)"

definition MultiRateBase_assign :: "nat \<Rightarrow> size_t \<Rightarrow> rate \<Rightarrow> heap \<Rightarrow> heap" where
  "MultiRateBase_assign e i r h = h(e := (h e)[unat i := r])"

fun rate_evaluator :: "rate \<Rightarrow> evaluator_ptr" where
  "rate_evaluator (RArrhenius r) = m_evaluator r"
| "rate_evaluator (RPlog r) = m_evaluator r"
| "rate_evaluator (RChebyshev r) = m_evaluator r"
| "rate_evaluator (RCustom r) = m_evaluator r"

fun rate_index :: "rate \<Rightarrow> size_t" where
  "rate_index (RArrhenius r) = m_index r"
| "rate_index (RPlog r) = m_index r"
| "rate_index (RChebyshev r) = m_index r"
| "rate_index (RCustom r) = m_index r"

text \<open>
  A mutator called on the evaluator's rate: \<open>m_evaluator->rate(m_index)\<close>, the
  \<open>dynamic_cast\<close> and the assignment of the member (the three together are the
  argument \<open>local\<close>), then the same call again where that rate is linked itself.
  The recursion of the source is not bounded; the first argument bounds its depth, and
  \<open>None\<close> is a call that has not returned within the bound.
\<close>

fun forward ::
  "nat \<Rightarrow> (rate \<Rightarrow> error + rate) \<Rightarrow> nat \<Rightarrow> size_t \<Rightarrow> heap \<Rightarrow> (error + heap) option" where
  "forward 0 local e i h = None"
| "forward (Suc n) local e i h =
     (case MultiRateBase_rate (h e) i of
        Inl err \<Rightarrow> Some (Inl err)
      | Inr r \<Rightarrow>
          (case local r of
             Inl err \<Rightarrow> Some (Inl err)
           | Inr r' \<Rightarrow>
               (let h' = MultiRateBase_assign e i r' h in
                case rate_evaluator r' of
                  None \<Rightarrow> Some (Inr h')
                | Some e' \<Rightarrow> forward n local e' (rate_index r') h')))"

definition forwarded ::
  "'a \<Rightarrow> (error + heap) option \<Rightarrow> (error + 'a \<times> heap) option" where
  "forwarded r res =
     (case res of
        None \<Rightarrow> None
      | Some (Inl err) \<Rightarrow> Some (Inl err)
      | Some (Inr h') \<Rightarrow> Some (Inr (r, h')))"

text \<open>The mutators of \<open>ArrheniusRate\<close>.\<close>

fun local_setPreExponentialFactor :: "double \<Rightarrow> rate \<Rightarrow> error + rate" where
  "local_setPreExponentialFactor A (RArrhenius c) = Inr (RArrhenius (c\<lparr>m_A := A\<rparr>))"
| "local_setPreExponentialFactor A c = Inl bad_cast"

definition setPreExponentialFactor ::
  "nat \<Rightarrow> double \<Rightarrow> ArrheniusRate \<Rightarrow> heap \<Rightarrow> (error + ArrheniusRate \<times> heap) option" where
  "setPreExponentialFactor fuel A r h =
     (let r' = r\<lparr>m_A := A\<rparr> in
      case m_evaluator r' of
        None \<Rightarrow> Some (Inr (r', h))
      | Some e \<Rightarrow>
          forwarded r' (forward fuel (local_setPreExponentialFactor A) e (m_index r') h))"

fun local_setTemperatureExponent :: "double \<Rightarrow> rate \<Rightarrow> error + rate" where
  "local_setTemperatureExponent b (RArrhenius c) = Inr (RArrhenius (c\<lparr>m_b := b\<rparr>))"
| "local_setTemperatureExponent b c = Inl bad_cast"

definition setTemperatureExponent ::
  "nat \<Rightarrow> double \<Rightarrow> ArrheniusRate \<Rightarrow> heap \<Rightarrow> (error + ArrheniusRate \<times> heap) option" where
  "setTemperatureExponent fuel b r h =
     (let r' = r\<lparr>m_b := b\<rparr> in
      case m_evaluator r' of
        None \<Rightarrow> Some (Inr (r', h))
      | Some e \<Rightarrow>
          forwarded r' (forward fuel (local_setTemperatureExponent b) e (m_index r') h))"

fun local_setActivationEnergy ::
  "(double \<Rightarrow> double \<Rightarrow> double) \<Rightarrow> double \<Rightarrow> double \<Rightarrow> rate \<Rightarrow> error + rate" where
  "local_setActivationEnergy fdiv GasConstant E (RArrhenius c) =
     Inr (RArrhenius (c\<lparr>m_E := fdiv E GasConstant\<rparr>))"
| "local_setActivationEnergy fdiv GasConstant E c = Inl bad_cast"

definition setActivationEnergy ::
  "(double \<Rightarrow> double \<Rightarrow> double) \<Rightarrow> double \<Rightarrow> nat \<Rightarrow> double \<Rightarrow> ArrheniusRate \<Rightarrow> heap \<Rightarrow>
   (error + ArrheniusRate \<times> heap) option" where
  "setActivationEnergy fdiv GasConstant fuel E r h =
     (let r' = r\<lparr>m_E := fdiv E GasConstant\<rparr> in
      case m_evaluator r' of
        None \<Rightarrow> Some (Inr (r', h))
      | Some e \<Rightarrow>
          forwarded r'
            (forward fuel (local_setActivationEnergy fdiv GasConstant E) e (m_index r') h))"

text \<open>The mutator of \<open>PlogRate\<close>.\<close>

fun local_setRates :: "plog_setter \<Rightarrow> (double \<times> Arrhenius) list \<Rightarrow> rate \<Rightarrow> error + rate" where
  "local_setRates Plog_setRates rates (RPlog c) =
     (case Plog_setRates rates (plog c) of
        Inl err \<Rightarrow> Inl err
      | Inr p \<Rightarrow> Inr (RPlog (c\<lparr>plog := p\<rparr>)))"
| "local_setRates Plog_setRates rates c = Inl bad_cast"

definition setRates ::
  "plog_setter \<Rightarrow> nat \<Rightarrow> (double \<times> Arrhenius) list \<Rightarrow> PlogRate \<Rightarrow> heap \<Rightarrow>
   (error + PlogRate \<times> heap) option" where
  "setRates Plog_setRates fuel rates r h =
     (case Plog_setRates rates (plog r) of
        Inl err \<Rightarrow> Some (Inl err)
      | Inr p \<Rightarrow>
          (let r' = r\<lparr>plog := p\<rparr> in
           case m_evaluator r' of
             None \<Rightarrow> Some (Inr (r', h))
           | Some e \<Rightarrow>
               forwarded r'
                 (forward fuel (local_setRates Plog_setRates rates) e (m_index r') h)))"

text \<open>The mutator and the validation of \<open>ChebyshevRate3\<close>.\<close>

fun local_setCoeffs :: "chebyshev_setter \<Rightarrow> Array2D \<Rightarrow> rate \<Rightarrow> error + rate" where
  "local_setCoeffs Chebyshev_setCoeffs coeffs (RChebyshev c) =
     (case Chebyshev_setCoeffs coeffs (chebyshev c) of
        Inl err \<Rightarrow> Inl err
      | Inr p \<Rightarrow> Inr (RChebyshev (c\<lparr>chebyshev := p\<rparr>)))"
| "local_setCoeffs Chebyshev_setCoeffs coeffs c = Inl bad_cast"

definition setCoeffs ::
  "chebyshev_setter \<Rightarrow> nat \<Rightarrow> Array2D \<Rightarrow> ChebyshevRate3 \<Rightarrow> heap \<Rightarrow>
   (error + ChebyshevRate3 \<times> heap) option" where
  "setCoeffs Chebyshev_setCoeffs fuel coeffs r h =
     (case Chebyshev_setCoeffs coeffs (chebyshev r) of
        Inl err \<Rightarrow> Some (Inl err)
      | Inr p \<Rightarrow>
          (let r' = r\<lparr>chebyshev := p\<rparr> in
           case m_evaluator r' of
             None \<Rightarrow> Some (Inr (r', h))
           | Some e \<Rightarrow>
               forwarded r'
                 (forward fuel (local_setCoeffs Chebyshev_setCoeffs coeffs) e (m_index r') h)))"

definition ChebyshevRate3_coeffs :: "ChebyshevRate3 \<Rightarrow> Array2D" where
  "ChebyshevRate3_coeffs r = coeffs2D (chebyshev r)"

definition ChebyshevRate3_validate :: "string \<Rightarrow> ChebyshevRate3 \<Rightarrow> error + ChebyshevRate3" where
  "ChebyshevRate3_validate equation r = Inr r"

text \<open>
  \<open>CustomFunc1Rate\<close>: the constructor leaves the pointer null, the mutator assigns
  it and does nothing else, the evaluation has no error branch.
\<close>

definition CustomFunc1Rate_new :: "ReactionRateBase \<Rightarrow> CustomFunc1Rate" where
  "CustomFunc1Rate_new base =
     \<lparr>units = units base, input = input base, m_evaluator = m_evaluator base,
      m_index = m_index base, m_ratefunc = None\<rparr>"

definition setRateFunction ::
  "Func1 option \<Rightarrow> CustomFunc1Rate \<Rightarrow> heap \<Rightarrow> error + CustomFunc1Rate \<times> heap" where
  "setRateFunction f r h = Inr (r\<lparr>m_ratefunc := f\<rparr>, h)"

definition CustomFunc1Rate_eval ::
  "CustomFunc1Rate \<Rightarrow> CustomFunc1Data \<Rightarrow> double \<Rightarrow> error + double" where
  "CustomFunc1Rate_eval r shared_data concm =
     (case m_ratefunc r of
        Some f \<Rightarrow> Inr (f (m_temperature shared_data))
      | None \<Rightarrow> Inr NaN)"

text \<open>
  What can be observed of a rate: all of it but the link. Two rates are observably equal
  when they differ in the link at most.
\<close>

fun observable :: "rate \<Rightarrow> rate" where
  "observable (RArrhenius r) = RArrhenius (releaseEvaluator r)"
| "observable (RPlog r) = RPlog (releaseEvaluator r)"
| "observable (RChebyshev r) = RChebyshev (releaseEvaluator r)"
| "observable (RCustom r) = RCustom (releaseEvaluator r)"

definition observably_equal :: "rate \<Rightarrow> rate \<Rightarrow> bool" where
  "observably_equal x y = (observable x = observable y)"

text \<open>
  The link of a rate is in order when it points to an evaluator whose rate at the stored
  index is \<open>c\<close>, and that rate, the evaluator's copy, is not linked itself.
\<close>

definition linked_to :: "'a ReactionRateBase_scheme \<Rightarrow> heap \<Rightarrow> nat \<Rightarrow> rate \<Rightarrow> bool" where
  "linked_to r h e c =
     (m_evaluator r = Some e \<and> MultiRateBase_rate (h e) (m_index r) = Inr c
      \<and> rate_evaluator c = None)"

text \<open>
  The Arrhenius object of a rate is configured, in the word of the source, when
  \<open>Arrhenius::getParameters\<close> leaves the fresh node it is given not empty.
\<close>

definition Arrhenius_configured ::
  "arrhenius_writer \<Rightarrow> UnitSystem \<Rightarrow> ArrheniusRate \<Rightarrow> Units \<Rightarrow> bool" where
  "Arrhenius_configured aget us0 r rate_units =
     (\<not> AnyMap_empty (aget (Arrhenius (m_A r) (m_b r) (m_E r)) rate_units (AnyMap_new us0)))"

section \<open>Histories of calls on the base class\<close>

text \<open>
  The calls of the base class that change a rate, and a history of them applied from the
  left. \<open>is_link_call\<close> holds of the two link operations.
\<close>

datatype call = SetParameters AnyMap Units | LinkEvaluator size_t evaluator_ptr | ReleaseEvaluator

fun call_apply :: "call \<Rightarrow> 'a ReactionRateBase_scheme \<Rightarrow> 'a ReactionRateBase_scheme" where
  "call_apply (SetParameters node rate_units) r = ReactionRateBase_setParameters node rate_units r"
| "call_apply (LinkEvaluator i ev) r = linkEvaluator i ev r"
| "call_apply ReleaseEvaluator r = releaseEvaluator r"

fun calls_apply :: "call list \<Rightarrow> 'a ReactionRateBase_scheme \<Rightarrow> 'a ReactionRateBase_scheme" where
  "calls_apply [] r = r"
| "calls_apply (c # cs) r = calls_apply cs (call_apply c r)"

fun is_link_call :: "call \<Rightarrow> bool" where
  "is_link_call (SetParameters node rate_units) = False"
| "is_link_call (LinkEvaluator i ev) = True"
| "is_link_call ReleaseEvaluator = True"

definition not_linked_error :: error where
  "not_linked_error = CanteraError ''ReactionRateBase::index''
     ''Not applicable, as reaction rate is not linked to Kinetics object with assoicated rate evaluator''"

section \<open>Concrete inputs\<close>

text \<open>
  Inputs at which the theorems below are evaluated. \<open>exact_div\<close> is a division of
  finite doubles that does not round, one of the functions the argument \<open>fdiv\<close> ranges
  over.
\<close>

definition example_unit_system :: UnitSystem where
  "example_unit_system = UnitSystem ''cal/mol'' ''kmol'' ''m'' ''s''"

definition example_base :: ReactionRateBase where
  "example_base =
     \<lparr>units = Units_of (Fin 0), input = AnyMap_new example_unit_system,
      m_evaluator = None, m_index = npos\<rparr>"

definition example_equation :: string where
  "example_equation = ''O + H2 <=> H + OH''"

definition exact_div :: "double \<Rightarrow> double \<Rightarrow> double" where
  "exact_div x y =
     (case (x, y) of
        (Fin a, Fin b) \<Rightarrow> if b = 0 then NaN else Fin (a / b)
      | _ \<Rightarrow> NaN)"

definition example_GasConstant :: double where
  "example_GasConstant = Fin 8314"

definition example_arrhenius :: ArrheniusRate where
  "example_arrhenius =
     ArrheniusRate_ABE exact_div example_GasConstant example_base (Fin 38.7) (Fin 2.7) (Fin 8314)"

definition example_plog :: PlogRate where
  "example_plog =
     \<lparr>units = Units_of (Fin 0), input = AnyMap_new example_unit_system,
      m_evaluator = None, m_index = npos,
      plog = [(Fin 1013.25, Arrhenius (Fin 1) (Fin 0) (Fin 0))]\<rparr>"

definition example_chebyshev :: ChebyshevRate3 where
  "example_chebyshev =
     \<lparr>units = Units_of (Fin 0), input = AnyMap_new example_unit_system,
      m_evaluator = None, m_index = npos,
      chebyshev = Chebyshev (Fin 290) (Fin 3000) (Fin 1000) (Fin 10000000) [[Fin 8.2883]]\<rparr>"

definition example_heap :: heap where
  "example_heap =
     (\<lambda>e. [])(0 := [RArrhenius example_arrhenius], 1 := [RPlog example_plog],
              2 := [RChebyshev example_chebyshev],
              3 := [RCustom (CustomFunc1Rate_new example_base)])"

definition example_Plog_setRates :: plog_setter where
  "example_Plog_setRates rates p = Inr rates"

definition example_Chebyshev_setCoeffs :: chebyshev_setter where
  "example_Chebyshev_setCoeffs coeffs c = Inr (Chebyshev (Tmin c) (Tmax c) (Pmin c) (Pmax c) coeffs)"

definition example_func :: Func1 where
  "example_func T = exact_div T (Fin 2)"

definition example_reader :: arrhenius_reader where
  "example_reader v us rate_units =
     (case v of
        AnyNested m \<Rightarrow>
          (case (AnyMap_find m ''A'', AnyMap_find m ''b'', AnyMap_find m ''Ea'') of
             (Some (AnyDouble A), Some (AnyDouble b), Some (AnyDouble E)) \<Rightarrow>
               Inr (Arrhenius A b (exact_div E example_GasConstant))
           | _ \<Rightarrow> Inl (CanteraError ''Arrhenius::setParameters'' ''rate-constant''))
      | _ \<Rightarrow> Inl (CanteraError ''Arrhenius::setParameters'' ''rate-constant''))"

definition example_writer :: arrhenius_writer where
  "example_writer arr rate_units node =
     (if preExponentialFactor arr = NaN then node
      else AnyMap_set ''Ea'' (AnyDouble (activationEnergy_R arr))
             (AnyMap_set ''b'' (AnyDouble (temperatureExponent arr))
               (AnyMap_set ''A'' (AnyDouble (preExponentialFactor arr)) node)))"

definition example_node_flag :: AnyMap where
  "example_node_flag = AnyMap [(''negative-A'', AnyBool True)] example_unit_system"

definition example_node_rate :: AnyMap where
  "example_node_rate =
     AnyMap [(''rate-constant'',
        AnyNested (AnyMap [(''A'', AnyDouble (Fin 38.7)), (''b'', AnyDouble (Fin 2.7)),
                           (''Ea'', AnyDouble (Fin 8314))] example_unit_system))]
       example_unit_system"

section \<open>Properties\<close>

subsection \<open>Mutators of a linked rate\<close>

lemma MultiRateBase_rate_assign:
  "MultiRateBase_rate (h e) i = Inr c \<Longrightarrow>
   MultiRateBase_rate (MultiRateBase_assign e i c' h e) i = Inr c'"
  by (auto simp: MultiRateBase_rate_def MultiRateBase_assign_def split: if_splits)

lemma observably_equal_Arrhenius:
  "observably_equal (RArrhenius r) (RArrhenius c) \<longleftrightarrow>
     units r = units c \<and> input r = input c \<and> m_A r = m_A c \<and> m_b r = m_b c \<and> m_E r = m_E c
     \<and> allow_negative_pre_exponential_factor r = allow_negative_pre_exponential_factor c"
  by (cases r, cases c) (auto simp: observably_equal_def releaseEvaluator_def)

lemma observably_equal_Plog:
  "observably_equal (RPlog r) (RPlog c) \<longleftrightarrow>
     units r = units c \<and> input r = input c \<and> plog r = plog c"
  by (cases r, cases c) (auto simp: observably_equal_def releaseEvaluator_def)

lemma observably_equal_Chebyshev:
  "observably_equal (RChebyshev r) (RChebyshev c) \<longleftrightarrow>
     units r = units c \<and> input r = input c \<and> chebyshev r = chebyshev c"
  by (cases r, cases c) (auto simp: observably_equal_def releaseEvaluator_def)

lemma setPreExponentialFactor_linked:
  assumes "linked_to r h e (RArrhenius c)"
  shows "setPreExponentialFactor (Suc n) A r h
     = Some (Inr (r\<lparr>m_A := A\<rparr>,
         MultiRateBase_assign e (m_index r) (RArrhenius (c\<lparr>m_A := A\<rparr>)) h))"
  using assms by (simp add: linked_to_def setPreExponentialFactor_def forwarded_def)

lemma setTemperatureExponent_linked:
  assumes "linked_to r h e (RArrhenius c)"
  shows "setTemperatureExponent (Suc n) b r h
     = Some (Inr (r\<lparr>m_b := b\<rparr>,
         MultiRateBase_assign e (m_index r) (RArrhenius (c\<lparr>m_b := b\<rparr>)) h))"
  using assms by (simp add: linked_to_def setTemperatureExponent_def forwarded_def)

lemma setActivationEnergy_linked:
  assumes "linked_to r h e (RArrhenius c)"
  shows "setActivationEnergy fdiv GasConstant (Suc n) E r h
     = Some (Inr (r\<lparr>m_E := fdiv E GasConstant\<rparr>,
         MultiRateBase_assign e (m_index r) (RArrhenius (c\<lparr>m_E := fdiv E GasConstant\<rparr>)) h))"
  using assms by (simp add: linked_to_def setActivationEnergy_def forwarded_def)

lemma setRates_linked:
  assumes "linked_to r h e (RPlog c)"
    and "Plog_setRates rates (plog r) = Inr x" and "Plog_setRates rates (plog c) = Inr y"
  shows "setRates Plog_setRates (Suc n) rates r h
     = Some (Inr (r\<lparr>plog := x\<rparr>,
         MultiRateBase_assign e (m_index r) (RPlog (c\<lparr>plog := y\<rparr>)) h))"
  using assms by (simp add: linked_to_def setRates_def forwarded_def)

lemma setCoeffs_linked:
  assumes "linked_to r h e (RChebyshev c)"
    and "Chebyshev_setCoeffs coeffs (chebyshev r) = Inr x"
    and "Chebyshev_setCoeffs coeffs (chebyshev c) = Inr y"
  shows "setCoeffs Chebyshev_setCoeffs (Suc n) coeffs r h
     = Some (Inr (r\<lparr>chebyshev := x\<rparr>,
         MultiRateBase_assign e (m_index r) (RChebyshev (c\<lparr>chebyshev := y\<rparr>)) h))"
  using assms by (simp add: linked_to_def setCoeffs_def forwarded_def)

lemma Arrhenius_mutators_unlinked:
  fixes c :: ArrheniusRate
  shows "m_evaluator c = None \<Longrightarrow> setPreExponentialFactor n A c h = Some (Inr (c\<lparr>m_A := A\<rparr>, h))"
    and "m_evaluator c = None \<Longrightarrow> setTemperatureExponent n b c h = Some (Inr (c\<lparr>m_b := b\<rparr>, h))"
    and "m_evaluator c = None \<Longrightarrow>
      setActivationEnergy fdiv GasConstant n E c h
        = Some (Inr (c\<lparr>m_E := fdiv E GasConstant\<rparr>, h))"
  by (simp_all add: setPreExponentialFactor_def setTemperatureExponent_def
      setActivationEnergy_def)

lemma setRates_unlinked:
  "m_evaluator c = None \<Longrightarrow> Plog_setRates rates (plog c) = Inr y \<Longrightarrow>
   setRates Plog_setRates n rates c h = Some (Inr (c\<lparr>plog := y\<rparr>, h))"
  by (simp add: setRates_def)

lemma setCoeffs_unlinked:
  "m_evaluator c = None \<Longrightarrow> Chebyshev_setCoeffs coeffs (chebyshev c) = Inr y \<Longrightarrow>
   setCoeffs Chebyshev_setCoeffs n coeffs c h = Some (Inr (c\<lparr>chebyshev := y\<rparr>, h))"
  by (simp add: setCoeffs_def)

text \<open>
  The link must not lead back to the rate it starts from: where the evaluator's rate at
  the index is linked to that same evaluator and index, the call on it does not return,
  whatever the bound.
\<close>

lemma setPreExponentialFactor_self_linked:
  "MultiRateBase_rate (h e) i = Inr (RArrhenius c) \<Longrightarrow> m_evaluator c = Some e \<Longrightarrow>
   m_index c = i \<Longrightarrow> forward n (local_setPreExponentialFactor A) e i h = None"
proof (induction n arbitrary: h c)
  case 0
  show ?case by simp
next
  case (Suc n)
  let ?c = "c\<lparr>m_A := A\<rparr>"
  let ?h = "MultiRateBase_assign e i (RArrhenius ?c) h"
  have "MultiRateBase_rate (?h e) i = Inr (RArrhenius ?c)"
    using Suc.prems(1) by (rule MultiRateBase_rate_assign)
  then have "forward n (local_setPreExponentialFactor A) e i ?h = None"
    using Suc.prems(2,3) Suc.IH [of ?h ?c] by simp
  then show ?case
    using Suc.prems by simp
qed

text \<open>
  C1. Let a rate be linked to an evaluator whose rate at the stored index is its copy,
  not linked itself. Each of \<open>setPreExponentialFactor\<close>,
  \<open>setTemperatureExponent\<close>, \<open>setActivationEnergy\<close>, \<open>setRates\<close> and
  \<open>setCoeffs\<close> returns, updates the rate's own state, and leaves the evaluator
  with the result of the same mutator on the copy at the stored index and with nothing
  else changed; a rate and a copy that were observably equal are observably equal
  afterwards. On a rate that is not linked the mutator changes the rate only. For
  \<open>setRates\<close> and \<open>setCoeffs\<close> the setter of the base class is taken to accept
  the value.
\<close>

theorem mutators_propagate:
  fixes r c :: ArrheniusRate and p cp :: PlogRate and q cq :: ChebyshevRate3
  shows
  "(linked_to r h e (RArrhenius c) \<longrightarrow>
      setPreExponentialFactor (Suc n) A r h
        = Some (Inr (r\<lparr>m_A := A\<rparr>,
            MultiRateBase_assign e (m_index r) (RArrhenius (c\<lparr>m_A := A\<rparr>)) h)) \<and>
      setPreExponentialFactor (Suc n) A c h = Some (Inr (c\<lparr>m_A := A\<rparr>, h)) \<and>
      (observably_equal (RArrhenius r) (RArrhenius c) \<longrightarrow>
         observably_equal (RArrhenius (r\<lparr>m_A := A\<rparr>)) (RArrhenius (c\<lparr>m_A := A\<rparr>))) \<and>
      setTemperatureExponent (Suc n) b r h
        = Some (Inr (r\<lparr>m_b := b\<rparr>,
            MultiRateBase_assign e (m_index r) (RArrhenius (c\<lparr>m_b := b\<rparr>)) h)) \<and>
      setTemperatureExponent (Suc n) b c h = Some (Inr (c\<lparr>m_b := b\<rparr>, h)) \<and>
      (observably_equal (RArrhenius r) (RArrhenius c) \<longrightarrow>
         observably_equal (RArrhenius (r\<lparr>m_b := b\<rparr>)) (RArrhenius (c\<lparr>m_b := b\<rparr>))) \<and>
      setActivationEnergy fdiv GasConstant (Suc n) E r h
        = Some (Inr (r\<lparr>m_E := fdiv E GasConstant\<rparr>,
            MultiRateBase_assign e (m_index r)
              (RArrhenius (c\<lparr>m_E := fdiv E GasConstant\<rparr>)) h)) \<and>
      setActivationEnergy fdiv GasConstant (Suc n) E c h
        = Some (Inr (c\<lparr>m_E := fdiv E GasConstant\<rparr>, h)) \<and>
      (observably_equal (RArrhenius r) (RArrhenius c) \<longrightarrow>
         observably_equal (RArrhenius (r\<lparr>m_E := fdiv E GasConstant\<rparr>))
           (RArrhenius (c\<lparr>m_E := fdiv E GasConstant\<rparr>)))) \<and>
   (linked_to p h e (RPlog cp) \<and> Plog_setRates rates (plog p) = Inr x
        \<and> Plog_setRates rates (plog cp) = Inr y \<longrightarrow>
      setRates Plog_setRates (Suc n) rates p h
        = Some (Inr (p\<lparr>plog := x\<rparr>,
            MultiRateBase_assign e (m_index p) (RPlog (cp\<lparr>plog := y\<rparr>)) h)) \<and>
      setRates Plog_setRates (Suc n) rates cp h = Some (Inr (cp\<lparr>plog := y\<rparr>, h)) \<and>
      (observably_equal (RPlog p) (RPlog cp) \<longrightarrow>
         observably_equal (RPlog (p\<lparr>plog := x\<rparr>)) (RPlog (cp\<lparr>plog := y\<rparr>)))) \<and>
   (linked_to q h e (RChebyshev cq) \<and> Chebyshev_setCoeffs coeffs (chebyshev q) = Inr u
        \<and> Chebyshev_setCoeffs coeffs (chebyshev cq) = Inr v \<longrightarrow>
      setCoeffs Chebyshev_setCoeffs (Suc n) coeffs q h
        = Some (Inr (q\<lparr>chebyshev := u\<rparr>,
            MultiRateBase_assign e (m_index q) (RChebyshev (cq\<lparr>chebyshev := v\<rparr>)) h)) \<and>
      setCoeffs Chebyshev_setCoeffs (Suc n) coeffs cq h
        = Some (Inr (cq\<lparr>chebyshev := v\<rparr>, h)) \<and>
      (observably_equal (RChebyshev q) (RChebyshev cq) \<longrightarrow>
         observably_equal (RChebyshev (q\<lparr>chebyshev := u\<rparr>))
           (RChebyshev (cq\<lparr>chebyshev := v\<rparr>)))) \<and>
   (\<forall>i old new. MultiRateBase_rate (h e) i = Inr old \<longrightarrow>
      MultiRateBase_rate (MultiRateBase_assign e i new h e) i = Inr new) \<and>
   (m_evaluator r = None \<longrightarrow>
      setPreExponentialFactor n A r h = Some (Inr (r\<lparr>m_A := A\<rparr>, h)) \<and>
      setTemperatureExponent n b r h = Some (Inr (r\<lparr>m_b := b\<rparr>, h)) \<and>
      setActivationEnergy fdiv GasConstant n E r h
        = Some (Inr (r\<lparr>m_E := fdiv E GasConstant\<rparr>, h))) \<and>
   (m_evaluator p = None \<and> Plog_setRates rates (plog p) = Inr x \<longrightarrow>
      setRates Plog_setRates n rates p h = Some (Inr (p\<lparr>plog := x\<rparr>, h))) \<and>
   (m_evaluator q = None \<and> Chebyshev_setCoeffs coeffs (chebyshev q) = Inr u \<longrightarrow>
      setCoeffs Chebyshev_setCoeffs n coeffs q h = Some (Inr (q\<lparr>chebyshev := u\<rparr>, h)))"
proof -
  have copyA: "m_evaluator c = None" if "linked_to r h e (RArrhenius c)"
    using that by (simp add: linked_to_def)
  have copyP: "m_evaluator cp = None" if "linked_to p h e (RPlog cp)"
    using that by (simp add: linked_to_def)
  have copyC: "m_evaluator cq = None" if "linked_to q h e (RChebyshev cq)"
    using that by (simp add: linked_to_def)
  have A1: "linked_to r h e (RArrhenius c) \<longrightarrow>
      setPreExponentialFactor (Suc n) A r h
        = Some (Inr (r\<lparr>m_A := A\<rparr>,
            MultiRateBase_assign e (m_index r) (RArrhenius (c\<lparr>m_A := A\<rparr>)) h)) \<and>
      setPreExponentialFactor (Suc n) A c h = Some (Inr (c\<lparr>m_A := A\<rparr>, h)) \<and>
      (observably_equal (RArrhenius r) (RArrhenius c) \<longrightarrow>
         observably_equal (RArrhenius (r\<lparr>m_A := A\<rparr>)) (RArrhenius (c\<lparr>m_A := A\<rparr>)))"
    using setPreExponentialFactor_linked [of r h e c n A]
      Arrhenius_mutators_unlinked(1) [OF copyA, of "Suc n" A h]
    by (simp add: observably_equal_Arrhenius)
  have A2: "linked_to r h e (RArrhenius c) \<longrightarrow>
      setTemperatureExponent (Suc n) b r h
        = Some (Inr (r\<lparr>m_b := b\<rparr>,
            MultiRateBase_assign e (m_index r) (RArrhenius (c\<lparr>m_b := b\<rparr>)) h)) \<and>
      setTemperatureExponent (Suc n) b c h = Some (Inr (c\<lparr>m_b := b\<rparr>, h)) \<and>
      (observably_equal (RArrhenius r) (RArrhenius c) \<longrightarrow>
         observably_equal (RArrhenius (r\<lparr>m_b := b\<rparr>)) (RArrhenius (c\<lparr>m_b := b\<rparr>)))"
    using setTemperatureExponent_linked [of r h e c n b]
      Arrhenius_mutators_unlinked(2) [OF copyA, of "Suc n" b h]
    by (simp add: observably_equal_Arrhenius)
  have A3: "linked_to r h e (RArrhenius c) \<longrightarrow>
      setActivationEnergy fdiv GasConstant (Suc n) E r h
        = Some (Inr (r\<lparr>m_E := fdiv E GasConstant\<rparr>,
            MultiRateBase_assign e (m_index r)
              (RArrhenius (c\<lparr>m_E := fdiv E GasConstant\<rparr>)) h)) \<and>
      setActivationEnergy fdiv GasConstant (Suc n) E c h
        = Some (Inr (c\<lparr>m_E := fdiv E GasConstant\<rparr>, h)) \<and>
      (observably_equal (RArrhenius r) (RArrhenius c) \<longrightarrow>
         observably_equal (RArrhenius (r\<lparr>m_E := fdiv E GasConstant\<rparr>))
           (RArrhenius (c\<lparr>m_E := fdiv E GasConstant\<rparr>)))"
    using setActivationEnergy_linked [of r h e c fdiv GasConstant n E]
      Arrhenius_mutators_unlinked(3) [OF copyA, of fdiv GasConstant "Suc n" E h]
    by (simp add: observably_equal_Arrhenius)
  have P: "linked_to p h e (RPlog cp) \<and> Plog_setRates rates (plog p) = Inr x
        \<and> Plog_setRates rates (plog cp) = Inr y \<longrightarrow>
      setRates Plog_setRates (Suc n) rates p h
        = Some (Inr (p\<lparr>plog := x\<rparr>,
            MultiRateBase_assign e (m_index p) (RPlog (cp\<lparr>plog := y\<rparr>)) h)) \<and>
      setRates Plog_setRates (Suc n) rates cp h = Some (Inr (cp\<lparr>plog := y\<rparr>, h)) \<and>
      (observably_equal (RPlog p) (RPlog cp) \<longrightarrow>
         observably_equal (RPlog (p\<lparr>plog := x\<rparr>)) (RPlog (cp\<lparr>plog := y\<rparr>)))"
    using setRates_linked [of p h e cp Plog_setRates rates x y n]
      setRates_unlinked [OF copyP, of Plog_setRates rates y "Suc n" h]
    by (auto simp: observably_equal_Plog)
  have C: "linked_to q h e (RChebyshev cq) \<and> Chebyshev_setCoeffs coeffs (chebyshev q) = Inr u
        \<and> Chebyshev_setCoeffs coeffs (chebyshev cq) = Inr v \<longrightarrow>
      setCoeffs Chebyshev_setCoeffs (Suc n) coeffs q h
        = Some (Inr (q\<lparr>chebyshev := u\<rparr>,
            MultiRateBase_assign e (m_index q) (RChebyshev (cq\<lparr>chebyshev := v\<rparr>)) h)) \<and>
      setCoeffs Chebyshev_setCoeffs (Suc n) coeffs cq h
        = Some (Inr (cq\<lparr>chebyshev := v\<rparr>, h)) \<and>
      (observably_equal (RChebyshev q) (RChebyshev cq) \<longrightarrow>
         observably_equal (RChebyshev (q\<lparr>chebyshev := u\<rparr>))
           (RChebyshev (cq\<lparr>chebyshev := v\<rparr>)))"
    using setCoeffs_linked [of q h e cq Chebyshev_setCoeffs coeffs u v n]
      setCoeffs_unlinked [OF copyC, of Chebyshev_setCoeffs coeffs v "Suc n" h]
    by (auto simp: observably_equal_Chebyshev)
  have R: "\<forall>i old new. MultiRateBase_rate (h e) i = Inr old \<longrightarrow>
      MultiRateBase_rate (MultiRateBase_assign e i new h e) i = Inr new"
    using MultiRateBase_rate_assign by blast
  have U1: "m_evaluator r = None \<longrightarrow>
      setPreExponentialFactor n A r h = Some (Inr (r\<lparr>m_A := A\<rparr>, h)) \<and>
      setTemperatureExponent n b r h = Some (Inr (r\<lparr>m_b := b\<rparr>, h)) \<and>
      setActivationEnergy fdiv GasConstant n E r h
        = Some (Inr (r\<lparr>m_E := fdiv E GasConstant\<rparr>, h))"
    using Arrhenius_mutators_unlinked [of r] by simp
  have U2: "m_evaluator p = None \<and> Plog_setRates rates (plog p) = Inr x \<longrightarrow>
      setRates Plog_setRates n rates p h = Some (Inr (p\<lparr>plog := x\<rparr>, h))"
    using setRates_unlinked [of p] by simp
  have U3: "m_evaluator q = None \<and> Chebyshev_setCoeffs coeffs (chebyshev q) = Inr u \<longrightarrow>
      setCoeffs Chebyshev_setCoeffs n coeffs q h = Some (Inr (q\<lparr>chebyshev := u\<rparr>, h))"
    using setCoeffs_unlinked [of q] by simp
  show ?thesis
    using A1 A2 A3 P C R U1 U2 U3 by blast
qed

text \<open>
  At concrete inputs: an Arrhenius, a Plog and a Chebyshev rate, each linked at index 0 to
  the evaluator that holds its copy, and the Arrhenius rate before it is linked.
\<close>

theorem mutators_propagate_witness:
  "linked_to (linkEvaluator 0 (Some 0) example_arrhenius) example_heap 0
     (RArrhenius example_arrhenius) \<and>
   observably_equal (RArrhenius (linkEvaluator 0 (Some 0) example_arrhenius))
     (RArrhenius example_arrhenius) \<and>
   setPreExponentialFactor 1 (Fin 77.4) (linkEvaluator 0 (Some 0) example_arrhenius) example_heap
     = Some (Inr ((linkEvaluator 0 (Some 0) example_arrhenius)\<lparr>m_A := Fin 77.4\<rparr>,
         example_heap(0 := [RArrhenius (example_arrhenius\<lparr>m_A := Fin 77.4\<rparr>)]))) \<and>
   observably_equal (RArrhenius ((linkEvaluator 0 (Some 0) example_arrhenius)\<lparr>m_A := Fin 77.4\<rparr>))
     (RArrhenius (example_arrhenius\<lparr>m_A := Fin 77.4\<rparr>)) \<and>
   linked_to (linkEvaluator 0 (Some 1) example_plog) example_heap 1 (RPlog example_plog) \<and>
   setRates example_Plog_setRates 1 [] (linkEvaluator 0 (Some 1) example_plog) example_heap
     = Some (Inr ((linkEvaluator 0 (Some 1) example_plog)\<lparr>plog := []\<rparr>,
         example_heap(1 := [RPlog (example_plog\<lparr>plog := []\<rparr>)]))) \<and>
   linked_to (linkEvaluator 0 (Some 2) example_chebyshev) example_heap 2
     (RChebyshev example_chebyshev) \<and>
   setCoeffs example_Chebyshev_setCoeffs 1 [[Fin 1]] (linkEvaluator 0 (Some 2) example_chebyshev)
       example_heap
     = Some (Inr ((linkEvaluator 0 (Some 2) example_chebyshev)
           \<lparr>chebyshev := Chebyshev (Fin 290) (Fin 3000) (Fin 1000) (Fin 10000000) [[Fin 1]]\<rparr>,
         example_heap(2 := [RChebyshev (example_chebyshev
           \<lparr>chebyshev := Chebyshev (Fin 290) (Fin 3000) (Fin 1000) (Fin 10000000) [[Fin 1]]\<rparr>)]))) \<and>
   m_evaluator example_arrhenius = None \<and>
   setPreExponentialFactor 0 (Fin 77.4) example_arrhenius example_heap
     = Some (Inr (example_arrhenius\<lparr>m_A := Fin 77.4\<rparr>, example_heap))"
proof -
  have la: "linked_to (linkEvaluator 0 (Some 0) example_arrhenius) example_heap 0
      (RArrhenius example_arrhenius)"
    by (simp add: linked_to_def linkEvaluator_def example_heap_def MultiRateBase_rate_def
        example_arrhenius_def ArrheniusRate_ABE_def example_base_def)
  have lp: "linked_to (linkEvaluator 0 (Some 1) example_plog) example_heap 1 (RPlog example_plog)"
    by (simp add: linked_to_def linkEvaluator_def example_heap_def MultiRateBase_rate_def
        example_plog_def)
  have lc: "linked_to (linkEvaluator 0 (Some 2) example_chebyshev) example_heap 2
      (RChebyshev example_chebyshev)"
    by (simp add: linked_to_def linkEvaluator_def example_heap_def MultiRateBase_rate_def
        example_chebyshev_def)
  have oa: "observably_equal (RArrhenius (linkEvaluator 0 (Some 0) example_arrhenius))
      (RArrhenius example_arrhenius)"
    by (simp add: observably_equal_def linkEvaluator_def releaseEvaluator_def)
  have ua: "m_evaluator example_arrhenius = None"
    by (simp add: example_arrhenius_def ArrheniusRate_ABE_def example_base_def)
  have ps: "example_Plog_setRates [] (plog (linkEvaluator 0 (Some 1) example_plog)) = Inr []"
    "example_Plog_setRates [] (plog example_plog) = Inr []"
    by (simp_all add: example_Plog_setRates_def)
  have cs: "example_Chebyshev_setCoeffs [[Fin 1]]
        (chebyshev (linkEvaluator 0 (Some 2) example_chebyshev))
      = Inr (Chebyshev (Fin 290) (Fin 3000) (Fin 1000) (Fin 10000000) [[Fin 1]])"
    "example_Chebyshev_setCoeffs [[Fin 1]] (chebyshev example_chebyshev)
      = Inr (Chebyshev (Fin 290) (Fin 3000) (Fin 1000) (Fin 10000000) [[Fin 1]])"
    by (simp_all add: example_Chebyshev_setCoeffs_def example_chebyshev_def linkEvaluator_def)
  have ix: "m_index (linkEvaluator i ev z) = i" for i ev and z :: "'a ReactionRateBase_scheme"
    by (simp add: linkEvaluator_def)
  have hp: "MultiRateBase_assign 0 0 x example_heap = example_heap(0 := [x])"
    "MultiRateBase_assign (Suc 0) 0 x example_heap = example_heap(Suc 0 := [x])"
    "MultiRateBase_assign 2 0 x example_heap = example_heap(2 := [x])" for x
    by (simp_all add: MultiRateBase_assign_def example_heap_def)
  show ?thesis
    using la lp lc oa ua ps cs
      mutators_propagate [where r = "linkEvaluator 0 (Some 0) example_arrhenius"
        and c = example_arrhenius and h = example_heap and e = 0 and n = 0 and A = "Fin 77.4"]
      mutators_propagate [where p = "linkEvaluator 0 (Some 1) example_plog"
        and cp = example_plog and h = example_heap and e = 1 and n = 0 and rates = "[]"
        and Plog_setRates = example_Plog_setRates and x = "[]" and y = "[]"]
      mutators_propagate [where q = "linkEvaluator 0 (Some 2) example_chebyshev"
        and cq = example_chebyshev and h = example_heap and e = 2 and n = 0
        and coeffs = "[[Fin 1]]" and Chebyshev_setCoeffs = example_Chebyshev_setCoeffs
        and u = "Chebyshev (Fin 290) (Fin 3000) (Fin 1000) (Fin 10000000) [[Fin 1]]"
        and v = "Chebyshev (Fin 290) (Fin 3000) (Fin 1000) (Fin 10000000) [[Fin 1]]"]
      mutators_propagate [where r = example_arrhenius and h = example_heap and n = 0
        and A = "Fin 77.4"]
    by (simp add: ix hp)
qed

subsection \<open>The index of a linked rate\<close>

lemma calls_apply_append: "calls_apply (xs @ ys) r = calls_apply ys (calls_apply xs r)"
  by (induction xs arbitrary: r) simp_all

lemma calls_apply_keeps_link:
  "list_all (\<lambda>c. \<not> is_link_call c) cs \<Longrightarrow>
   m_evaluator (calls_apply cs r) = m_evaluator r \<and> m_index (calls_apply cs r) = m_index r"
proof (induction cs arbitrary: r)
  case Nil
  show ?case by simp
next
  case (Cons c cs)
  then show ?case by (cases c) (simp_all add: ReactionRateBase_setParameters_def)
qed

text \<open>
  The mutators of the derived classes, the reading of parameters and the validation leave
  the link of the rate as it was; a link to the null pointer is no link.
\<close>

lemma mutators_keep_link:
  fixes r r' :: ArrheniusRate and p p' :: PlogRate and q q' :: ChebyshevRate3
    and k k' :: CustomFunc1Rate
  shows "setPreExponentialFactor n A r h = Some (Inr (r', h')) \<Longrightarrow> index r' = index r"
    and "setTemperatureExponent n b r h = Some (Inr (r', h')) \<Longrightarrow> index r' = index r"
    and "setActivationEnergy fdiv GasConstant n E r h = Some (Inr (r', h')) \<Longrightarrow>
      index r' = index r"
    and "ArrheniusRate_setParameters conv node rate_units r = Inr r' \<Longrightarrow> index r' = index r"
    and "ArrheniusRate_validate equation r = Inr r' \<Longrightarrow> index r' = index r"
    and "setRates Plog_setRates n rates p h = Some (Inr (p', h')) \<Longrightarrow> index p' = index p"
    and "setCoeffs Chebyshev_setCoeffs n coeffs q h = Some (Inr (q', h')) \<Longrightarrow> index q' = index q"
    and "setRateFunction f k h = Inr (k', h') \<Longrightarrow> index k' = index k"
  by (auto simp: setPreExponentialFactor_def setTemperatureExponent_def setActivationEnergy_def
      ArrheniusRate_setParameters_def Arrhenius_setParameters_def
      ReactionRateBase_setParameters_def ArrheniusRate_validate_def setRates_def setCoeffs_def
      setRateFunction_def forwarded_def index_def Let_def
      split: option.splits sum.splits if_splits)

lemma index_of_null_link: "index (linkEvaluator idx None r) = Inl not_linked_error"
  by (simp add: index_def linkEvaluator_def not_linked_error_def)

text \<open>
  C2. \<open>index()\<close> on a rate that is not linked to an evaluator fails with the error of
  \<open>ReactionRateBase::index\<close>, as it does after \<open>releaseEvaluator\<close>. In every
  history whose last link operation is \<open>linkEvaluator(idx, ev)\<close> for an evaluator
  \<open>ev\<close>, \<open>index()\<close> returns \<open>idx\<close>; when the last link operation is
  \<open>releaseEvaluator\<close>, it fails.
\<close>

theorem index_of_link:
  "(m_evaluator r = None \<longrightarrow> index r = Inl not_linked_error) \<and>
   index (releaseEvaluator r) = Inl not_linked_error \<and>
   (list_all (\<lambda>c. \<not> is_link_call c) post \<longrightarrow>
      index (calls_apply (pre @ LinkEvaluator idx (Some ev) # post) r) = Inr idx \<and>
      index (calls_apply (pre @ ReleaseEvaluator # post) r) = Inl not_linked_error)"
proof -
  have a: "m_evaluator r = None \<longrightarrow> index r = Inl not_linked_error"
    by (simp add: index_def not_linked_error_def)
  have b: "index (releaseEvaluator r) = Inl not_linked_error"
    by (simp add: index_def releaseEvaluator_def not_linked_error_def)
  have c: "index (calls_apply (pre @ LinkEvaluator idx (Some ev) # post) r) = Inr idx"
    if "list_all (\<lambda>c. \<not> is_link_call c) post"
    using calls_apply_keeps_link [OF that, of "linkEvaluator idx (Some ev) (calls_apply pre r)"]
    by (simp add: calls_apply_append index_def linkEvaluator_def)
  have d: "index (calls_apply (pre @ ReleaseEvaluator # post) r) = Inl not_linked_error"
    if "list_all (\<lambda>c. \<not> is_link_call c) post"
    using calls_apply_keeps_link [OF that, of "releaseEvaluator (calls_apply pre r)"]
    by (simp add: calls_apply_append index_def releaseEvaluator_def not_linked_error_def)
  from a b c d show ?thesis by blast
qed

text \<open>
  At concrete inputs: a rate that is not linked, a history that releases, links at index 3
  and sets parameters, and one that links and then releases.
\<close>

theorem index_of_link_witness:
  "m_evaluator example_base = None \<and>
   index example_base = Inl not_linked_error \<and>
   list_all (\<lambda>c. \<not> is_link_call c) [SetParameters (AnyMap_new example_unit_system) (Units_of (Fin 1))] \<and>
   index (calls_apply
       ([ReleaseEvaluator] @ LinkEvaluator 3 (Some 0)
          # [SetParameters (AnyMap_new example_unit_system) (Units_of (Fin 1))])
       example_base) = Inr 3 \<and>
   index (calls_apply
       ([LinkEvaluator 3 (Some 0)] @ ReleaseEvaluator
          # [SetParameters (AnyMap_new example_unit_system) (Units_of (Fin 1))])
       example_base) = Inl not_linked_error"
  using index_of_link [of example_base
      "[SetParameters (AnyMap_new example_unit_system) (Units_of (Fin 1))]"
      "[ReleaseEvaluator]" 3 0]
    index_of_link [of example_base
      "[SetParameters (AnyMap_new example_unit_system) (Units_of (Fin 1))]"
      "[LinkEvaluator 3 (Some 0)]" 3 0]
  by (simp add: example_base_def)

subsection \<open>Validation of an Arrhenius rate\<close>

text \<open>
  C3, as amended. \<open>ArrheniusRate::validate(equation)\<close> raises if and only if the
  pre-exponential factor is less than zero and negative factors are not allowed. The
  message of the error contains the equation. When it does not raise, the rate is
  unchanged, and where negative factors are not allowed the factor is then not negative:
  it is at least zero, or it is NaN, the value of a rate that is not set.
\<close>

theorem validate_raises_iff:
  "((\<exists>err. ArrheniusRate_validate equation r = Inl err) \<longleftrightarrow>
      double_lt (ArrheniusRate_preExponentialFactor r) (Fin 0)
      \<and> \<not> allow_negative_pre_exponential_factor r) \<and>
   (\<forall>err. ArrheniusRate_validate equation r = Inl err \<longrightarrow>
      (\<exists>before after.
         err = CanteraError ''ArrheniusRate::validate'' (before @ equation @ after))) \<and>
   (\<forall>r'. ArrheniusRate_validate equation r = Inr r' \<longrightarrow>
      r' = r \<and>
      (\<not> allow_negative_pre_exponential_factor r' \<longrightarrow>
         double_ge (ArrheniusRate_preExponentialFactor r') (Fin 0)
         \<or> ArrheniusRate_preExponentialFactor r' = NaN))"
proof -
  have ge: "double_ge x (Fin 0) \<or> x = NaN" if "\<not> double_lt x (Fin 0)" for x
    using that by (cases x) simp_all
  have msg: "\<exists>before after.
      CanteraError ''ArrheniusRate::validate''
         (''Undeclared negative pre-exponential factor found in reaction '' @ [CHR 0x27]
            @ equation @ [CHR 0x27])
      = CanteraError ''ArrheniusRate::validate'' (before @ equation @ after)"
    by (rule exI [of _ "''Undeclared negative pre-exponential factor found in reaction '' @ [CHR 0x27]"],
        rule exI [of _ "[CHR 0x27]"]) simp
  have raises: "(\<exists>err. ArrheniusRate_validate equation r = Inl err) \<longleftrightarrow>
      double_lt (ArrheniusRate_preExponentialFactor r) (Fin 0)
      \<and> \<not> allow_negative_pre_exponential_factor r"
    by (auto simp: ArrheniusRate_validate_def)
  have message: "\<forall>err. ArrheniusRate_validate equation r = Inl err \<longrightarrow>
      (\<exists>before after.
         err = CanteraError ''ArrheniusRate::validate'' (before @ equation @ after))"
    using msg by (auto simp: ArrheniusRate_validate_def split: if_splits)
  have unchanged: "\<forall>r'. ArrheniusRate_validate equation r = Inr r' \<longrightarrow>
      r' = r \<and>
      (\<not> allow_negative_pre_exponential_factor r' \<longrightarrow>
         double_ge (ArrheniusRate_preExponentialFactor r') (Fin 0)
         \<or> ArrheniusRate_preExponentialFactor r' = NaN)"
    by (auto simp: ArrheniusRate_validate_def split: if_splits dest: ge)
  from raises message unchanged show ?thesis by blast
qed

text \<open>
  At concrete inputs: a rate with the factor \<open>-2\<close> and one with the factor \<open>2\<close>,
  negative factors not allowed.
\<close>

theorem validate_raises_iff_witness:
  "ArrheniusRate_validate example_equation
       (ArrheniusRate_ABE exact_div example_GasConstant example_base (Fin (- 2)) (Fin 0) (Fin 0))
     = Inl (CanteraError ''ArrheniusRate::validate''
         (''Undeclared negative pre-exponential factor found in reaction '' @ [CHR 0x27]
            @ example_equation @ [CHR 0x27])) \<and>
   ArrheniusRate_validate example_equation
       (ArrheniusRate_ABE exact_div example_GasConstant example_base (Fin 2) (Fin 0) (Fin 0))
     = Inr (ArrheniusRate_ABE exact_div example_GasConstant example_base (Fin 2) (Fin 0) (Fin 0)) \<and>
   double_ge (ArrheniusRate_preExponentialFactor
       (ArrheniusRate_ABE exact_div example_GasConstant example_base (Fin 2) (Fin 0) (Fin 0))) (Fin 0)"
  using validate_raises_iff [of example_equation
      "ArrheniusRate_ABE exact_div example_GasConstant example_base (Fin (- 2)) (Fin 0) (Fin 0)"]
    validate_raises_iff [of example_equation
      "ArrheniusRate_ABE exact_div example_GasConstant example_base (Fin 2) (Fin 0) (Fin 0)"]
  by (simp add: ArrheniusRate_validate_def ArrheniusRate_ABE_def
      ArrheniusRate_preExponentialFactor_def)

text \<open>
  C3 as stated fails at the rate of the default constructor: its factor is NaN, the
  validation accepts it, and NaN is not at least zero.
\<close>

theorem validate_accepts_NaN:
  "ArrheniusRate_validate example_equation (ArrheniusRate_default example_base)
     = Inr (ArrheniusRate_default example_base) \<and>
   \<not> allow_negative_pre_exponential_factor (ArrheniusRate_default example_base) \<and>
   \<not> double_ge (ArrheniusRate_preExponentialFactor (ArrheniusRate_default example_base)) (Fin 0)"
  by (simp add: ArrheniusRate_validate_def ArrheniusRate_default_def
      ArrheniusRate_preExponentialFactor_def)

subsection \<open>The activation energy\<close>

text \<open>
  C5. For every \<open>A\<close>, \<open>b\<close> and \<open>E\<close>, the constructor
  \<open>ArrheniusRate(A, b, E)\<close> and the mutator \<open>setActivationEnergy(E)\<close> both
  store \<open>E / GasConstant\<close> as the activation energy of the rate, whatever the
  division of doubles and the constant are; the mutator returns on a rate that is not
  linked and on a rate whose link is in order, where the evaluator's copy stores the same
  quotient.
\<close>

theorem activation_energy_stored_over_R:
  "ArrheniusRate_activationEnergy_R (ArrheniusRate_ABE fdiv GasConstant base A b E)
     = fdiv E GasConstant \<and>
   ArrheniusRate_preExponentialFactor (ArrheniusRate_ABE fdiv GasConstant base A b E) = A \<and>
   ArrheniusRate_temperatureExponent (ArrheniusRate_ABE fdiv GasConstant base A b E) = b \<and>
   (\<forall>r' h'. setActivationEnergy fdiv GasConstant fuel E r h = Some (Inr (r', h')) \<longrightarrow>
      ArrheniusRate_activationEnergy_R r' = fdiv E GasConstant \<and>
      ArrheniusRate_activationEnergy_R r'
        = ArrheniusRate_activationEnergy_R (ArrheniusRate_ABE fdiv GasConstant base A b E)) \<and>
   (m_evaluator r = None \<longrightarrow>
      setActivationEnergy fdiv GasConstant fuel E r h
        = Some (Inr (r\<lparr>m_E := fdiv E GasConstant\<rparr>, h))) \<and>
   (\<forall>e c. m_evaluator r = Some e \<and> MultiRateBase_rate (h e) (m_index r) = Inr (RArrhenius c)
        \<and> m_evaluator c = None \<longrightarrow>
      setActivationEnergy fdiv GasConstant (Suc fuel) E r h
        = Some (Inr (r\<lparr>m_E := fdiv E GasConstant\<rparr>,
            MultiRateBase_assign e (m_index r) (RArrhenius (c\<lparr>m_E := fdiv E GasConstant\<rparr>)) h)))"
proof -
  have ctor: "ArrheniusRate_activationEnergy_R (ArrheniusRate_ABE fdiv GasConstant base A b E)
      = fdiv E GasConstant"
    "ArrheniusRate_preExponentialFactor (ArrheniusRate_ABE fdiv GasConstant base A b E) = A"
    "ArrheniusRate_temperatureExponent (ArrheniusRate_ABE fdiv GasConstant base A b E) = b"
    by (simp_all add: ArrheniusRate_ABE_def ArrheniusRate_activationEnergy_R_def
        ArrheniusRate_preExponentialFactor_def ArrheniusRate_temperatureExponent_def)
  have mut: "ArrheniusRate_activationEnergy_R r' = fdiv E GasConstant"
    if "setActivationEnergy fdiv GasConstant fuel E r h = Some (Inr (r', h'))" for r' h'
    using that
    by (auto simp: setActivationEnergy_def forwarded_def ArrheniusRate_activationEnergy_R_def Let_def
        split: option.splits sum.splits)
  have unlinked: "m_evaluator r = None \<longrightarrow>
      setActivationEnergy fdiv GasConstant fuel E r h
        = Some (Inr (r\<lparr>m_E := fdiv E GasConstant\<rparr>, h))"
    by (simp add: setActivationEnergy_def)
  have linked: "setActivationEnergy fdiv GasConstant (Suc fuel) E r h
        = Some (Inr (r\<lparr>m_E := fdiv E GasConstant\<rparr>,
            MultiRateBase_assign e (m_index r) (RArrhenius (c\<lparr>m_E := fdiv E GasConstant\<rparr>)) h))"
    if "m_evaluator r = Some e" "MultiRateBase_rate (h e) (m_index r) = Inr (RArrhenius c)"
      "m_evaluator c = None" for e c
    using that by (simp add: setActivationEnergy_def forwarded_def)
  from ctor mut unlinked linked show ?thesis by auto
qed

text \<open>
  At concrete inputs: the energy 16628 over the constant 8314, at the constructor, at a
  rate that is not linked and at a linked one.
\<close>

theorem activation_energy_stored_over_R_witness:
  "m_evaluator example_arrhenius = None \<and>
   setActivationEnergy exact_div example_GasConstant 0 (Fin 16628) example_arrhenius example_heap
     = Some (Inr (example_arrhenius\<lparr>m_E := Fin 2\<rparr>, example_heap)) \<and>
   ArrheniusRate_activationEnergy_R
       (ArrheniusRate_ABE exact_div example_GasConstant example_base (Fin 1) (Fin 0) (Fin 16628))
     = Fin 2 \<and>
   m_evaluator (linkEvaluator 0 (Some 0) example_arrhenius) = Some 0 \<and>
   MultiRateBase_rate (example_heap 0) (m_index (linkEvaluator 0 (Some 0) example_arrhenius))
     = Inr (RArrhenius example_arrhenius) \<and>
   setActivationEnergy exact_div example_GasConstant 1 (Fin 16628)
       (linkEvaluator 0 (Some 0) example_arrhenius) example_heap
     = Some (Inr ((linkEvaluator 0 (Some 0) example_arrhenius)\<lparr>m_E := Fin 2\<rparr>,
         example_heap(0 := [RArrhenius (example_arrhenius\<lparr>m_E := Fin 2\<rparr>)])))"
proof -
  have ua: "m_evaluator example_arrhenius = None"
    by (simp add: example_arrhenius_def ArrheniusRate_ABE_def example_base_def)
  have la: "m_evaluator (linkEvaluator 0 (Some 0) example_arrhenius) = Some 0"
    "m_index (linkEvaluator 0 (Some 0) example_arrhenius) = 0"
    by (simp_all add: linkEvaluator_def)
  have ra: "MultiRateBase_rate (example_heap 0) 0 = Inr (RArrhenius example_arrhenius)"
    by (simp add: example_heap_def MultiRateBase_rate_def)
  have hp: "MultiRateBase_assign 0 0 x example_heap = example_heap(0 := [x])" for x
    by (simp add: MultiRateBase_assign_def example_heap_def)
  have dv: "exact_div (Fin 16628) example_GasConstant = Fin 2"
    by (simp add: exact_div_def example_GasConstant_def)
  have ct: "ArrheniusRate_activationEnergy_R
       (ArrheniusRate_ABE exact_div example_GasConstant example_base (Fin 1) (Fin 0) (Fin 16628))
     = Fin 2"
    using activation_energy_stored_over_R [of exact_div example_GasConstant example_base
        "Fin 1" "Fin 0" "Fin 16628" 0 example_arrhenius example_heap]
    by (simp add: dv)
  have un: "setActivationEnergy exact_div example_GasConstant 0 (Fin 16628) example_arrhenius
       example_heap
     = Some (Inr (example_arrhenius\<lparr>m_E := Fin 2\<rparr>, example_heap))"
    using ua activation_energy_stored_over_R [of exact_div example_GasConstant example_base
        "Fin 1" "Fin 0" "Fin 16628" 0 example_arrhenius example_heap]
    by (simp add: dv)
  have li: "setActivationEnergy exact_div example_GasConstant 1 (Fin 16628)
       (linkEvaluator 0 (Some 0) example_arrhenius) example_heap
     = Some (Inr ((linkEvaluator 0 (Some 0) example_arrhenius)\<lparr>m_E := Fin 2\<rparr>,
         example_heap(0 := [RArrhenius (example_arrhenius\<lparr>m_E := Fin 2\<rparr>)])))"
    using ua la ra activation_energy_stored_over_R [of exact_div example_GasConstant example_base
        "Fin 1" "Fin 0" "Fin 16628" 0 "linkEvaluator 0 (Some 0) example_arrhenius" example_heap]
    by (simp add: dv hp)
  from ua ct la ra un li show ?thesis by simp
qed

subsection \<open>Parameters of an Arrhenius rate\<close>

lemma map_of_filter_key:
  "map_of (filter (\<lambda>kv. fst kv \<noteq> k) xs) k' = (if k' = k then None else map_of xs k')"
  by (induction xs) auto

lemma AnyMap_find_set:
  "AnyMap_find (AnyMap_set k v node) k' = (if k' = k then Some v else AnyMap_find node k')"
  by (simp add: AnyMap_find_def AnyMap_set_def map_of_filter_key)

text \<open>
  C6. \<open>ArrheniusRate::setParameters\<close> on a node without the key
  \<open>rate-constant\<close>, whose key \<open>negative-A\<close> is absent or a boolean, raises no
  error: it records the node and the rate units, sets the flag from \<open>negative-A\<close>
  (false when absent), leaves the three coefficients NaN and the link as it was. A later
  \<open>setParameters\<close> on a node with a rate constant that reads as a triple sets the
  coefficients to that triple.
\<close>

theorem setParameters_without_rate_constant:
  assumes absent: "\<not> hasKey node ''rate-constant''"
    and flag: "AnyMap_find node ''negative-A'' = None
      \<or> (\<exists>flag. AnyMap_find node ''negative-A'' = Some (AnyBool flag))"
  shows "\<exists>r'. ArrheniusRate_setParameters conv node rate_units r = Inr r' \<and>
      units r' = rate_units \<and> input r' = node \<and>
      allow_negative_pre_exponential_factor r'
        = (AnyMap_find node ''negative-A'' = Some (AnyBool True)) \<and>
      m_A r' = NaN \<and> m_b r' = NaN \<and> m_E r' = NaN \<and>
      m_evaluator r' = m_evaluator r \<and> m_index r' = m_index r \<and>
      (\<forall>node2 rate_units2 v arr flag2.
         AnyMap_find node2 ''rate-constant'' = Some v \<and> v \<noteq> AnyEmpty
           \<and> conv v (m_units node2) rate_units2 = Inr arr
           \<and> getBool node2 ''negative-A'' False = Inr flag2 \<longrightarrow>
         ArrheniusRate_setParameters conv node2 rate_units2 r'
           = Inr (r'\<lparr>units := rate_units2, input := node2,
                    m_A := preExponentialFactor arr, m_b := temperatureExponent arr,
                    m_E := activationEnergy_R arr,
                    allow_negative_pre_exponential_factor := flag2\<rparr>))"
proof -
  define b where "b = (AnyMap_find node ''negative-A'' = Some (AnyBool True))"
  have gb: "getBool node ''negative-A'' False = Inr b"
    using flag by (auto simp: getBool_def b_def)
  define r' where
    "r' = r\<lparr>units := rate_units, input := node,
             m_A := NaN, m_b := NaN, m_E := NaN,
             allow_negative_pre_exponential_factor := b\<rparr>"
  have first: "ArrheniusRate_setParameters conv node rate_units r = Inr r'"
    using absent gb
    by (simp add: ArrheniusRate_setParameters_def Arrhenius_setParameters_def
        ReactionRateBase_setParameters_def r'_def)
  have later: "ArrheniusRate_setParameters conv node2 rate_units2 r'
           = Inr (r'\<lparr>units := rate_units2, input := node2,
                    m_A := preExponentialFactor arr, m_b := temperatureExponent arr,
                    m_E := activationEnergy_R arr,
                    allow_negative_pre_exponential_factor := flag2\<rparr>)"
    if "AnyMap_find node2 ''rate-constant'' = Some v" "v \<noteq> AnyEmpty"
      "conv v (m_units node2) rate_units2 = Inr arr"
      "getBool node2 ''negative-A'' False = Inr flag2"
    for node2 rate_units2 v arr flag2
    using that
    by (simp add: ArrheniusRate_setParameters_def Arrhenius_setParameters_def
        ReactionRateBase_setParameters_def hasKey_def AnyMap_at_def)
  have fields: "units r' = rate_units" "input r' = node"
    "allow_negative_pre_exponential_factor r' = b"
    "m_A r' = NaN" "m_b r' = NaN" "m_E r' = NaN"
    "m_evaluator r' = m_evaluator r" "m_index r' = m_index r"
    by (simp_all add: r'_def)
  show ?thesis
    using first later fields unfolding b_def by blast
qed

text \<open>
  At concrete inputs: a node that holds \<open>negative-A: true\<close> only, then the node of
  the first reaction of the sample mechanism.
\<close>

theorem setParameters_without_rate_constant_witness:
  "\<not> hasKey example_node_flag ''rate-constant'' \<and>
   AnyMap_find example_node_flag ''negative-A'' = Some (AnyBool True) \<and>
   ArrheniusRate_setParameters example_reader example_node_flag (Units_of (Fin 1))
       (ArrheniusRate_ABE exact_div example_GasConstant example_base (Fin 1) (Fin 0) (Fin 0))
     = Inr ((ArrheniusRate_default example_base)
         \<lparr>units := Units_of (Fin 1), input := example_node_flag,
           allow_negative_pre_exponential_factor := True\<rparr>) \<and>
   ArrheniusRate_setParameters example_reader example_node_rate (Units_of (Fin 1))
       ((ArrheniusRate_default example_base)
         \<lparr>units := Units_of (Fin 1), input := example_node_flag,
           allow_negative_pre_exponential_factor := True\<rparr>)
     = Inr ((ArrheniusRate_default example_base)
         \<lparr>units := Units_of (Fin 1), input := example_node_rate,
           m_A := Fin 38.7, m_b := Fin 2.7, m_E := Fin 1\<rparr>)"
  using setParameters_without_rate_constant [of example_node_flag example_reader
      "Units_of (Fin 1)"
      "ArrheniusRate_ABE exact_div example_GasConstant example_base (Fin 1) (Fin 0) (Fin 0)"]
  by (simp add: example_node_flag_def example_node_rate_def hasKey_def AnyMap_find_def
      ArrheniusRate_setParameters_def Arrhenius_setParameters_def getBool_def AnyMap_at_def
      ReactionRateBase_setParameters_def ArrheniusRate_ABE_def ArrheniusRate_default_def
      example_reader_def exact_div_def example_GasConstant_def example_base_def)

text \<open>
  C7. For every rate, every rate units and every output node, \<open>getParameters\<close>
  stores \<open>true\<close> at \<open>negative-A\<close> when the flag is set and leaves that key as
  it was otherwise; it stores the node of the coefficients at \<open>rate-constant\<close>
  when the Arrhenius object is configured and leaves that key as it was otherwise; it
  touches no other key. So on a node that did not hold the key, \<open>negative-A\<close> is
  present afterwards if and only if the flag is set, and \<open>rate-constant\<close> if and
  only if the coefficients are configured; so it is in the fresh node that
  \<open>parameters(rate_units)\<close> returns.
\<close>

theorem getParameters_keys:
  "(allow_negative_pre_exponential_factor r \<longrightarrow>
      AnyMap_find (ArrheniusRate_getParameters aget us0 r rate_units rateNode) ''negative-A''
        = Some (AnyBool True)) \<and>
   (\<not> allow_negative_pre_exponential_factor r \<longrightarrow>
      AnyMap_find (ArrheniusRate_getParameters aget us0 r rate_units rateNode) ''negative-A''
        = AnyMap_find rateNode ''negative-A'') \<and>
   (Arrhenius_configured aget us0 r rate_units \<longrightarrow>
      AnyMap_find (ArrheniusRate_getParameters aget us0 r rate_units rateNode) ''rate-constant''
        = Some (AnyNested (aget (Arrhenius (m_A r) (m_b r) (m_E r)) rate_units (AnyMap_new us0)))) \<and>
   (\<not> Arrhenius_configured aget us0 r rate_units \<longrightarrow>
      AnyMap_find (ArrheniusRate_getParameters aget us0 r rate_units rateNode) ''rate-constant''
        = AnyMap_find rateNode ''rate-constant'') \<and>
   (\<not> hasKey rateNode ''negative-A'' \<longrightarrow>
      (hasKey (ArrheniusRate_getParameters aget us0 r rate_units rateNode) ''negative-A''
         \<longleftrightarrow> allow_negative_pre_exponential_factor r)) \<and>
   (\<not> hasKey rateNode ''rate-constant'' \<longrightarrow>
      (hasKey (ArrheniusRate_getParameters aget us0 r rate_units rateNode) ''rate-constant''
         \<longleftrightarrow> Arrhenius_configured aget us0 r rate_units)) \<and>
   (\<forall>key. key \<noteq> ''negative-A'' \<and> key \<noteq> ''rate-constant'' \<longrightarrow>
      AnyMap_find (ArrheniusRate_getParameters aget us0 r rate_units rateNode) key
        = AnyMap_find rateNode key) \<and>
   (hasKey (ArrheniusRate_parameters_in aget us0 r rate_units) ''negative-A''
      \<longleftrightarrow> allow_negative_pre_exponential_factor r) \<and>
   (hasKey (ArrheniusRate_parameters_in aget us0 r rate_units) ''rate-constant''
      \<longleftrightarrow> Arrhenius_configured aget us0 r rate_units)"
  by (simp add: ArrheniusRate_getParameters_def ArrheniusRate_parameters_in_def
      Arrhenius_configured_def Let_def AnyMap_find_set hasKey_def)
     (simp add: AnyMap_find_def AnyMap_new_def)

text \<open>
  At concrete inputs: a rate with coefficients and the flag set writes both keys to a fresh
  node, the rate of the default constructor writes neither.
\<close>

theorem getParameters_keys_witness:
  "hasKey (ArrheniusRate_getParameters example_writer example_unit_system
       ((ArrheniusRate_ABE exact_div example_GasConstant example_base (Fin 1) (Fin 0) (Fin 0))
          \<lparr>allow_negative_pre_exponential_factor := True\<rparr>)
       (Units_of (Fin 1)) (AnyMap_new example_unit_system)) ''negative-A'' \<and>
   hasKey (ArrheniusRate_getParameters example_writer example_unit_system
       ((ArrheniusRate_ABE exact_div example_GasConstant example_base (Fin 1) (Fin 0) (Fin 0))
          \<lparr>allow_negative_pre_exponential_factor := True\<rparr>)
       (Units_of (Fin 1)) (AnyMap_new example_unit_system)) ''rate-constant'' \<and>
   \<not> hasKey (ArrheniusRate_getParameters example_writer example_unit_system
       (ArrheniusRate_default example_base)
       (Units_of (Fin 1)) (AnyMap_new example_unit_system)) ''negative-A'' \<and>
   \<not> hasKey (ArrheniusRate_getParameters example_writer example_unit_system
       (ArrheniusRate_default example_base)
       (Units_of (Fin 1)) (AnyMap_new example_unit_system)) ''rate-constant''"
  using getParameters_keys [of
      "(ArrheniusRate_ABE exact_div example_GasConstant example_base (Fin 1) (Fin 0) (Fin 0))
          \<lparr>allow_negative_pre_exponential_factor := True\<rparr>"
      example_writer example_unit_system "Units_of (Fin 1)" "AnyMap_new example_unit_system"]
    getParameters_keys [of "ArrheniusRate_default example_base"
      example_writer example_unit_system "Units_of (Fin 1)" "AnyMap_new example_unit_system"]
  by (simp add: Arrhenius_configured_def example_writer_def ArrheniusRate_ABE_def
      ArrheniusRate_default_def ArrheniusRate_getParameters_def AnyMap_set_def AnyMap_new_def
      AnyMap_empty_def hasKey_def AnyMap_find_def)

subsection \<open>Validation of a Chebyshev rate\<close>

text \<open>
  C9. \<open>ChebyshevRate3::validate\<close> raises no error and returns the rate as it was, for
  every equation and every state of the rate, whatever its coefficient matrix.
\<close>

theorem ChebyshevRate3_validate_accepts: "ChebyshevRate3_validate equation r = Inr r"
  by (simp add: ChebyshevRate3_validate_def)

subsection \<open>Evaluation of a custom rate\<close>

text \<open>
  C8. For every shared data, \<open>CustomFunc1Rate::eval\<close> returns \<open>f(T)\<close> as it is
  when the rate function \<open>f\<close> is set, as after \<open>setRateFunction(f)\<close>, and NaN
  when none is set, as after the constructor; it returns a value in every case and never
  an error.
\<close>

theorem eval_function_or_NaN:
  "(\<forall>f. m_ratefunc r = Some f \<longrightarrow>
      CustomFunc1Rate_eval r shared_data concm = Inr (f (m_temperature shared_data))) \<and>
   (m_ratefunc r = None \<longrightarrow> CustomFunc1Rate_eval r shared_data concm = Inr NaN) \<and>
   (\<exists>k. CustomFunc1Rate_eval r shared_data concm = Inr k) \<and>
   (\<forall>r' h'. setRateFunction (Some f) r h = Inr (r', h') \<longrightarrow>
      CustomFunc1Rate_eval r' shared_data concm = Inr (f (m_temperature shared_data))) \<and>
   CustomFunc1Rate_eval (CustomFunc1Rate_new base) shared_data concm = Inr NaN"
  by (auto simp: CustomFunc1Rate_eval_def setRateFunction_def CustomFunc1Rate_new_def
      split: option.splits)

text \<open>
  At concrete inputs: a new rate at 1000 K, before and after the function \<open>T / 2\<close>
  is set.
\<close>

theorem eval_function_or_NaN_witness:
  "m_ratefunc (CustomFunc1Rate_new example_base) = None \<and>
   CustomFunc1Rate_eval (CustomFunc1Rate_new example_base) \<lparr>m_temperature = Fin 1000\<rparr> (Fin 1)
     = Inr NaN \<and>
   setRateFunction (Some (\<lambda>T. exact_div T (Fin 2))) (CustomFunc1Rate_new example_base) (\<lambda>e. [])
     = Inr ((CustomFunc1Rate_new example_base)\<lparr>m_ratefunc := Some (\<lambda>T. exact_div T (Fin 2))\<rparr>,
            \<lambda>e. []) \<and>
   CustomFunc1Rate_eval
       ((CustomFunc1Rate_new example_base)\<lparr>m_ratefunc := Some (\<lambda>T. exact_div T (Fin 2))\<rparr>)
       \<lparr>m_temperature = Fin 1000\<rparr> (Fin 1)
     = Inr (Fin 500)"
  using eval_function_or_NaN [of "CustomFunc1Rate_new example_base"
      "\<lparr>m_temperature = Fin 1000\<rparr>" "Fin 1" "\<lambda>T. exact_div T (Fin 2)" "\<lambda>e. []" example_base]
    eval_function_or_NaN [of
      "(CustomFunc1Rate_new example_base)\<lparr>m_ratefunc := Some (\<lambda>T. exact_div T (Fin 2))\<rparr>"
      "\<lparr>m_temperature = Fin 1000\<rparr>" "Fin 1" "\<lambda>T. exact_div T (Fin 2)" "\<lambda>e. []" example_base]
  by (simp add: CustomFunc1Rate_new_def setRateFunction_def exact_div_def)

text \<open>
  C10. The result of \<open>CustomFunc1Rate::eval\<close> does not depend on the argument
  \<open>concm\<close>.
\<close>

theorem eval_ignores_concm:
  "CustomFunc1Rate_eval r shared_data concm = CustomFunc1Rate_eval r shared_data concm'"
  by (simp add: CustomFunc1Rate_eval_def)

subsection \<open>The rate function of a linked custom rate\<close>

text \<open>
  C4 fails on the source. \<open>setRateFunction\<close> assigns the pointer of the rate and
  does not reach the evaluator. A custom rate linked to the evaluator at address 3, whose
  copy at index 0 has no function, evaluates to \<open>f(1000) = 500\<close> after
  \<open>setRateFunction(f)\<close>, while the evaluator is unchanged and its copy still
  evaluates to NaN: the two are no longer observably equal.
\<close>

theorem setRateFunction_not_forwarded:
  "linked_to (linkEvaluator 0 (Some 3) (CustomFunc1Rate_new example_base)) example_heap 3
     (RCustom (CustomFunc1Rate_new example_base)) \<and>
   observably_equal (RCustom (linkEvaluator 0 (Some 3) (CustomFunc1Rate_new example_base)))
     (RCustom (CustomFunc1Rate_new example_base)) \<and>
   setRateFunction (Some example_func) (linkEvaluator 0 (Some 3) (CustomFunc1Rate_new example_base))
       example_heap
     = Inr ((linkEvaluator 0 (Some 3) (CustomFunc1Rate_new example_base))
              \<lparr>m_ratefunc := Some example_func\<rparr>, example_heap) \<and>
   CustomFunc1Rate_eval
       ((linkEvaluator 0 (Some 3) (CustomFunc1Rate_new example_base))
          \<lparr>m_ratefunc := Some example_func\<rparr>) \<lparr>m_temperature = Fin 1000\<rparr> (Fin 1)
     = Inr (Fin 500) \<and>
   MultiRateBase_rate (example_heap 3) 0 = Inr (RCustom (CustomFunc1Rate_new example_base)) \<and>
   CustomFunc1Rate_eval (CustomFunc1Rate_new example_base) \<lparr>m_temperature = Fin 1000\<rparr> (Fin 1)
     = Inr NaN \<and>
   \<not> observably_equal
       (RCustom ((linkEvaluator 0 (Some 3) (CustomFunc1Rate_new example_base))
          \<lparr>m_ratefunc := Some example_func\<rparr>))
       (RCustom (CustomFunc1Rate_new example_base))"
  by (simp add: linked_to_def linkEvaluator_def example_heap_def MultiRateBase_rate_def
      CustomFunc1Rate_new_def example_base_def observably_equal_def releaseEvaluator_def
      setRateFunction_def CustomFunc1Rate_eval_def example_func_def exact_div_def)

end
